theory Spec2Isabelle
  imports Complex_Main "HOL-Library.Multiset"
begin

section \<open>JavaScript numbers\<close>

text \<open>
  A Number is NaN, an infinity or a finite value. The sign of zero is not kept: the
  modelled code never divides by a zero that it computed and the sort reads only whether
  a difference is below or above zero. In the seed data a numeric literal is written with
  its decimal value, which stands for the Number nearest to it.
\<close>

datatype number = NaN | NegInf | Fin real | PosInf

text \<open>The comparisons \<open><\<close> and \<open><=\<close>: false when an operand is NaN.\<close>

fun js_lt :: "number \<Rightarrow> number \<Rightarrow> bool" where
  "js_lt (Fin a) (Fin b) = (a < b)"
| "js_lt NegInf (Fin b) = True"
| "js_lt NegInf PosInf = True"
| "js_lt (Fin a) PosInf = True"
| "js_lt _ _ = False"

definition js_le :: "number \<Rightarrow> number \<Rightarrow> bool" where
  "js_le x y = (x \<noteq> NaN \<and> y \<noteq> NaN \<and> \<not> js_lt y x)"

text \<open>\<open>Math.max\<close> of two arguments: NaN when one of them is NaN, else the larger one.\<close>

definition js_max :: "number \<Rightarrow> number \<Rightarrow> number" where
  "js_max x y = (if x = NaN \<or> y = NaN then NaN else if js_lt x y then y else x)"

text \<open>
  The floating-point results of the runtime are parameters of the model: what \<open>+\<close>, \<open>-\<close>,
  \<open>*\<close>, \<open>/\<close>, \<open>Math.sin\<close>, \<open>Math.cos\<close>, \<open>Math.sqrt\<close> and \<open>Math.atan2\<close> return for
  operands that are not NaN, and \<open>fnum\<close>, the Number nearest to an exact value, which is
  what a decimal literal, \<open>Math.PI\<close> and the quotient of two array lengths are. The
  rounding of IEEE 754 and the approximations of the \<open>Math\<close> functions are inside these
  functions. The model itself fixes what ECMAScript fixes for every runtime: an operation
  with a NaN operand returns NaN.
\<close>

record runtime =
  fadd :: "number \<Rightarrow> number \<Rightarrow> number"
  fsub :: "number \<Rightarrow> number \<Rightarrow> number"
  fmul :: "number \<Rightarrow> number \<Rightarrow> number"
  fdiv :: "number \<Rightarrow> number \<Rightarrow> number"
  fsin :: "number \<Rightarrow> number"
  fcos :: "number \<Rightarrow> number"
  fsqrt :: "number \<Rightarrow> number"
  fatan2 :: "number \<Rightarrow> number \<Rightarrow> number"
  fnum :: "real \<Rightarrow> number"

definition js_add :: "runtime \<Rightarrow> number \<Rightarrow> number \<Rightarrow> number" where
  "js_add rt x y = (if x = NaN \<or> y = NaN then NaN else fadd rt x y)"

definition js_sub :: "runtime \<Rightarrow> number \<Rightarrow> number \<Rightarrow> number" where
  "js_sub rt x y = (if x = NaN \<or> y = NaN then NaN else fsub rt x y)"

definition js_mul :: "runtime \<Rightarrow> number \<Rightarrow> number \<Rightarrow> number" where
  "js_mul rt x y = (if x = NaN \<or> y = NaN then NaN else fmul rt x y)"

definition js_div :: "runtime \<Rightarrow> number \<Rightarrow> number \<Rightarrow> number" where
  "js_div rt x y = (if x = NaN \<or> y = NaN then NaN else fdiv rt x y)"

definition js_sin :: "runtime \<Rightarrow> number \<Rightarrow> number" where
  "js_sin rt x = (if x = NaN then NaN else fsin rt x)"

definition js_cos :: "runtime \<Rightarrow> number \<Rightarrow> number" where
  "js_cos rt x = (if x = NaN then NaN else fcos rt x)"

definition js_sqrt :: "runtime \<Rightarrow> number \<Rightarrow> number" where
  "js_sqrt rt x = (if x = NaN then NaN else fsqrt rt x)"

definition js_atan2 :: "runtime \<Rightarrow> number \<Rightarrow> number \<Rightarrow> number" where
  "js_atan2 rt y x = (if y = NaN \<or> x = NaN then NaN else fatan2 rt y x)"

text \<open>
  IEEE 754 subtraction keeps the sign: the difference of two finite numbers \<open>y - x\<close> is
  not NaN, and it is above zero, below zero or zero exactly when the exact difference is.
  This is the only property of the arithmetic that the ranking depends on.
\<close>

definition sign_exact :: "runtime \<Rightarrow> real \<Rightarrow> real \<Rightarrow> bool" where
  "sign_exact rt x y =
     (fsub rt (Fin y) (Fin x) \<noteq> NaN
      \<and> js_lt (Fin 0) (fsub rt (Fin y) (Fin x)) = (x < y)
      \<and> js_lt (fsub rt (Fin y) (Fin x)) (Fin 0) = (y < x))"

subsection \<open>An arithmetic without rounding\<close>

text \<open>
  The runtime that computes every finite result exactly, with the special cases of
  division by zero and of the square root of a negative number. It instantiates the
  theorems that are stated for every runtime. \<open>atan2\<close> is \<open>Math.atan2\<close> on finite reals.
\<close>

definition atan2 :: "real \<Rightarrow> real \<Rightarrow> real" where
  "atan2 y x =
     (if 0 < x then arctan (y / x)
      else if x < 0 then (if 0 \<le> y then arctan (y / x) + pi else arctan (y / x) - pi)
      else if 0 < y then pi / 2
      else if y < 0 then - (pi / 2)
      else 0)"

fun exact2 :: "(real \<Rightarrow> real \<Rightarrow> real) \<Rightarrow> number \<Rightarrow> number \<Rightarrow> number" where
  "exact2 f (Fin a) (Fin b) = Fin (f a b)"
| "exact2 f _ _ = NaN"

fun exact1 :: "(real \<Rightarrow> real) \<Rightarrow> number \<Rightarrow> number" where
  "exact1 f (Fin a) = Fin (f a)"
| "exact1 f _ = NaN"

fun exact_div :: "number \<Rightarrow> number \<Rightarrow> number" where
  "exact_div (Fin a) (Fin b) =
     (if b \<noteq> 0 then Fin (a / b)
      else if 0 < a then PosInf else if a < 0 then NegInf else NaN)"
| "exact_div _ _ = NaN"

fun exact_sqrt :: "number \<Rightarrow> number" where
  "exact_sqrt (Fin a) = (if a < 0 then NaN else Fin (sqrt a))"
| "exact_sqrt PosInf = PosInf"
| "exact_sqrt _ = NaN"

definition exact_runtime :: runtime where
  "exact_runtime =
     \<lparr>fadd = exact2 (+), fsub = exact2 (-), fmul = exact2 (*), fdiv = exact_div,
      fsin = exact1 sin, fcos = exact1 cos, fsqrt = exact_sqrt, fatan2 = exact2 atan2,
      fnum = Fin\<rparr>"

section \<open>Data model of server.js\<close>

text \<open>
  Strings are \<^typ>\<open>string\<close>, arrays are lists, numbers that the code computes with are
  \<^typ>\<open>number\<close>. Only the fields that the modelled functions read or write are kept in the
  records. Record fields share one name space, so a field name that several object shapes
  of the source use (\<open>id\<close>, \<open>name\<close>, \<open>status\<close>, \<open>created_at\<close>, \<open>customer_id\<close>) keeps its
  plain name in one record at most and carries the name of its object as a prefix in the
  others.
\<close>

record coords =
  lat :: number
  lng :: number

record worker =
  worker_id :: string
  name :: string
  skills :: "string list"
  home_coords :: coords
  rating :: number
  active_assignment_ids :: "string list"

record workSite =
  site_id :: string
  address :: string
  coords :: coords
  status :: string
  preferred_skills :: "string list"

section \<open>Helper functions: the assignment score\<close>

text \<open>
  \<open>calculateDistance(coord1, coord2)\<close>: the haversine formula with radius 6371, each
  operation in the order in which the source applies it.
\<close>

definition calculateDistance :: "runtime \<Rightarrow> coords \<Rightarrow> coords \<Rightarrow> number" where
  "calculateDistance rt coord1 coord2 =
     (let R = Fin 6371;
          dLat = js_div rt (js_mul rt (js_sub rt (lat coord2) (lat coord1)) (fnum rt pi)) (Fin 180);
          dLon = js_div rt (js_mul rt (js_sub rt (lng coord2) (lng coord1)) (fnum rt pi)) (Fin 180);
          a = js_add rt
                (js_mul rt (js_sin rt (js_div rt dLat (Fin 2))) (js_sin rt (js_div rt dLat (Fin 2))))
                (js_mul rt
                  (js_mul rt
                    (js_mul rt
                      (js_cos rt (js_div rt (js_mul rt (lat coord1) (fnum rt pi)) (Fin 180)))
                      (js_cos rt (js_div rt (js_mul rt (lat coord2) (fnum rt pi)) (Fin 180))))
                    (js_sin rt (js_div rt dLon (Fin 2))))
                  (js_sin rt (js_div rt dLon (Fin 2))));
          c = js_mul rt (Fin 2) (js_atan2 rt (js_sqrt rt a) (js_sqrt rt (js_sub rt (Fin 1) a)))
      in js_mul rt R c)"

text \<open>
  \<open>calculateSkillMatch(workerSkills, siteSkills)\<close>: \<open>filter\<close> keeps the entries of the
  site's list that the worker's list \<open>includes\<close>; both lengths count list entries. The
  value is the exact quotient; the Number that the code returns is the one nearest to it.
\<close>

definition calculateSkillMatch :: "string list \<Rightarrow> string list \<Rightarrow> real" where
  "calculateSkillMatch workerSkills siteSkills =
     (if length siteSkills = 0 then 0.5
      else let matching = filter (\<lambda>skill. skill \<in> set workerSkills) siteSkills
           in real (length matching) / real (length siteSkills))"

text \<open>
  The local binding \<open>distanceScore = Math.max(0, 1 - (distance / 20))\<close> of
  \<open>calculateAssignmentScore\<close>, as a function of a finite distance.
\<close>

definition distanceScore :: "real \<Rightarrow> real" where
  "distanceScore distance = max 0 (1 - distance / 20)"

text \<open>
  \<open>calculateAssignmentScore(worker, workSite)\<close>, on Numbers: \<open>dScore\<close>, \<open>aScore\<close> and
  \<open>hScore\<close> are the local bindings \<open>distanceScore\<close>, \<open>availabilityScore\<close> and
  \<open>historicalScore\<close>.
\<close>

definition calculateAssignmentScore :: "runtime \<Rightarrow> worker \<Rightarrow> workSite \<Rightarrow> number" where
  "calculateAssignmentScore rt w workSite =
     (let skillMatch = fnum rt (calculateSkillMatch (skills w) (preferred_skills workSite));
          distance = calculateDistance rt (home_coords w) (coords workSite);
          dScore = js_max (Fin 0) (js_sub rt (Fin 1) (js_div rt distance (Fin 20)));
          aScore = (if length (active_assignment_ids w) = 0 then Fin 1
                    else if length (active_assignment_ids w) \<le> 2 then fnum rt 0.7
                    else fnum rt 0.3);
          hScore = js_div rt (rating w) (Fin 5)
      in js_add rt
           (js_add rt
             (js_add rt (js_mul rt skillMatch (fnum rt 0.4)) (js_mul rt dScore (fnum rt 0.3)))
             (js_mul rt aScore (fnum rt 0.2)))
           (js_mul rt hScore (fnum rt 0.1)))"

section \<open>The ranking of \<open>/api/ai/recommend/:siteId\<close>\<close>

text \<open>
  \<open>Array.prototype.sort(comparefn)\<close>. ECMAScript fixes the result when \<open>comparefn\<close> is a
  consistent comparison function for the elements: it never returns NaN, and the three
  relations "below zero", "zero" and "above zero" that it defines are reflexive,
  symmetric and transitive as listed in \<open>consistent\<close>. The result is then the stable
  sort, modelled as insertion sort: an element goes behind the elements it compares above
  zero with, and in front of the first other one. When \<open>comparefn\<close> is not consistent the
  order is left to the implementation, which is \<^const>\<open>None\<close> here.
\<close>

definition consistent :: "('a \<Rightarrow> 'a \<Rightarrow> number) \<Rightarrow> 'a list \<Rightarrow> bool" where
  "consistent cmp xs =
     (\<forall>a \<in> set xs. \<forall>b \<in> set xs. \<forall>c \<in> set xs.
        cmp a b \<noteq> NaN
        \<and> cmp a a = Fin 0
        \<and> (cmp a b = Fin 0 \<longrightarrow> cmp b a = Fin 0)
        \<and> (cmp a b = Fin 0 \<and> cmp b c = Fin 0 \<longrightarrow> cmp a c = Fin 0)
        \<and> (js_lt (cmp a b) (Fin 0) \<and> js_lt (cmp b c) (Fin 0) \<longrightarrow> js_lt (cmp a c) (Fin 0))
        \<and> (js_lt (Fin 0) (cmp a b) \<and> js_lt (Fin 0) (cmp b c) \<longrightarrow> js_lt (Fin 0) (cmp a c)))"

fun insert_cmp :: "('a \<Rightarrow> 'a \<Rightarrow> number) \<Rightarrow> 'a \<Rightarrow> 'a list \<Rightarrow> 'a list" where
  "insert_cmp cmp x [] = [x]"
| "insert_cmp cmp x (y # ys) =
     (if js_lt (Fin 0) (cmp x y) then y # insert_cmp cmp x ys else x # y # ys)"

definition js_sort :: "('a \<Rightarrow> 'a \<Rightarrow> number) \<Rightarrow> 'a list \<Rightarrow> 'a list option" where
  "js_sort cmp xs = (if consistent cmp xs then Some (foldr (insert_cmp cmp) xs []) else None)"

record scored =
  scored_worker :: worker
  score :: number

text \<open>
  The \<open>scores\<close> of the handler, as a function of the worker array and of the site found:
  each worker is paired with \<open>calculateAssignmentScore(worker, site)\<close> and the pairs are
  sorted with the comparator \<open>(a, b) => b.score - a.score\<close>.
\<close>

definition traditional_scores :: "runtime \<Rightarrow> worker list \<Rightarrow> workSite \<Rightarrow> scored list option" where
  "traditional_scores rt ws site =
     js_sort (\<lambda>a b. js_sub rt (score b) (score a))
       (map (\<lambda>w. \<lparr>scored_worker = w, score = calculateAssignmentScore rt w site\<rparr>) ws)"

section \<open>The in-memory store and the handlers that write it\<close>

text \<open>
  A timestamp is the time value in milliseconds that \<open>Date.now()\<close> returns; an ISO string
  made by \<open>toISOString\<close> is represented by the time value it renders. The clock readings
  and the results of \<open>uuidv4()\<close> that a handler takes are arguments of its model, one
  argument for each call in the source, in the order of the calls.
\<close>

record assignment =
  assignment_id :: string
  workerId :: string
  siteId :: string
  assignedAt :: int
  assignment_status :: string

record ticket =
  ticket_id :: string
  ticket_customer_id :: string
  service_type :: string
  ticket_status :: string
  priority :: string
  ticket_created_at :: int
  scheduled_date :: "int option"
  assigned_worker :: "string option"
  estimated_cost :: real
  actual_cost :: real

record invoice =
  invoice_id :: string
  invoice_customer_id :: string
  amount :: real
  services :: "string list"
  invoice_status :: string
  invoice_created_at :: int
  due_date :: int
  payment_method :: "string option"

text \<open>The pieces of a template literal: text, or a number that is interpolated.\<close>

datatype part = Str string | Num real

record communication =
  comm_id :: string
  comm_customer_id :: string
  comm_type :: string
  content :: "part list"
  timestamp :: int
  sentiment :: string

record customer =
  customer_id :: string
  customer_name :: string

text \<open>
  The module-level arrays \<open>workSites\<close>, \<open>workers\<close>, \<open>customers\<close>, \<open>assignments\<close> and the
  three arrays of the \<open>realGreenCRM\<close> object that the handlers below write.
\<close>

record store =
  workSites :: "workSite list"
  workers :: "worker list"
  customers :: "customer list"
  assignments :: "assignment list"
  serviceTickets :: "ticket list"
  invoices :: "invoice list"
  communications :: "communication list"

text \<open>
  What a handler answers: \<open>res.json({success: true, ...})\<close> with the object it made,
  \<open>res.json({success: false, error})\<close>, or status 500 with the message of the exception
  caught.
\<close>

datatype payload =
  AssignmentData assignment
| TicketData ticket
| InvoiceData invoice
| SiteData workSite

datatype response = Success payload | Failure string | ServerError string

text \<open>
  \<open>site.status = ...\<close> and \<open>worker.active_assignment_ids.push(...)\<close> write to the object
  that \<open>find\<close> returned, which is the first element of the array that satisfies the test.
\<close>

fun update_first :: "('a \<Rightarrow> bool) \<Rightarrow> ('a \<Rightarrow> 'a) \<Rightarrow> 'a list \<Rightarrow> 'a list" where
  "update_first P f [] = []"
| "update_first P f (x # xs) = (if P x then f x # xs else x # update_first P f xs)"

text \<open>Decimal digits of an integer, as \<open>`${Date.now()}`\<close> prints a time value.\<close>

fun show_nat :: "nat \<Rightarrow> string" where
  "show_nat n =
     (if n < 10 then [''0123456789'' ! n]
      else show_nat (n div 10) @ [''0123456789'' ! (n mod 10)])"

definition show_int :: "int \<Rightarrow> string" where
  "show_int i = (if i < 0 then ''-'' @ show_nat (nat (- i)) else show_nat (nat i))"

text \<open>
  \<open>new Date(v).toISOString()\<close> throws a RangeError when \<open>v\<close> is outside the range of time
  values (8.64e15 milliseconds on either side of the epoch).
\<close>

definition toISOString :: "int \<Rightarrow> string + int" where
  "toISOString v =
     (if - 8640000000000000 \<le> v \<and> v \<le> 8640000000000000 then Inr v
      else Inl ''Invalid time value'')"

subsection \<open>class RealGreenCRM\<close>

text \<open>
  \<open>createServiceTicket(customerId, serviceType, priority = 'medium')\<close>: the default applies
  when the argument is \<open>undefined\<close>, which is \<^const>\<open>None\<close> here. \<open>now\<close> is the reading of
  \<open>new Date()\<close>.
\<close>

definition createServiceTicket ::
  "string \<Rightarrow> int \<Rightarrow> string \<Rightarrow> string \<Rightarrow> string option \<Rightarrow> store \<Rightarrow> ticket \<times> store" where
  "createServiceTicket uuid now customerId serviceType prio st =
     (let t = \<lparr>ticket_id = ''ticket_'' @ uuid,
                ticket_customer_id = customerId,
                service_type = serviceType,
                ticket_status = ''open'',
                priority = (case prio of None \<Rightarrow> ''medium'' | Some p \<Rightarrow> p),
                ticket_created_at = now,
                scheduled_date = None,
                assigned_worker = None,
                estimated_cost = 0,
                actual_cost = 0\<rparr>
      in (t, st\<lparr>serviceTickets := serviceTickets st @ [t]\<rparr>))"

text \<open>
  \<open>generateInvoice(customerId, amount, services)\<close> reads the clock three times: \<open>t1\<close> for the
  id (\<open>Date.now()\<close>), \<open>t2\<close> for \<open>created_at\<close> (\<open>new Date()\<close>) and \<open>t3\<close> for \<open>due_date\<close>
  (\<open>Date.now() + 30 * 24 * 60 * 60 * 1000\<close>). The exception of \<open>toISOString\<close> leaves the
  function before the \<open>push\<close>.
\<close>

definition generateInvoice ::
  "int \<Rightarrow> int \<Rightarrow> int \<Rightarrow> string \<Rightarrow> real \<Rightarrow> string list \<Rightarrow> store \<Rightarrow> string + invoice \<times> store" where
  "generateInvoice t1 t2 t3 customerId amt svcs st =
     (case toISOString (t3 + 30 * 24 * 60 * 60 * 1000) of
        Inl e \<Rightarrow> Inl e
      | Inr due \<Rightarrow>
          let invoice = \<lparr>invoice_id = ''INV-'' @ show_int t1,
                          invoice_customer_id = customerId,
                          amount = amt,
                          services = svcs,
                          invoice_status = ''pending'',
                          invoice_created_at = t2,
                          due_date = due,
                          payment_method = None\<rparr>
          in Inr (invoice, st\<lparr>invoices := invoices st @ [invoice]\<rparr>))"

definition logCommunication ::
  "string \<Rightarrow> int \<Rightarrow> string \<Rightarrow> string \<Rightarrow> part list \<Rightarrow> store \<Rightarrow> communication \<times> store" where
  "logCommunication uuid now customerId type text st =
     (let comm = \<lparr>comm_id = ''comm_'' @ uuid,
                   comm_customer_id = customerId,
                   comm_type = type,
                   content = text,
                   timestamp = now,
                   sentiment = ''neutral''\<rparr>
      in (comm, st\<lparr>communications := communications st @ [comm]\<rparr>))"

subsection \<open>The route handlers\<close>

text \<open>
  \<open>app.post('/api/crm/ticket')\<close>. The events sent with \<open>io.emit\<close> and the \<open>message\<close> text of
  the answers are not part of the store and are left out of every handler.
\<close>

definition api_crm_ticket ::
  "string \<Rightarrow> int \<Rightarrow> string \<Rightarrow> int \<Rightarrow> string \<Rightarrow> string \<Rightarrow> string option \<Rightarrow> store
     \<Rightarrow> response \<times> store" where
  "api_crm_ticket uuid1 now1 uuid2 now2 customerId serviceType prio st =
     (case find (\<lambda>c. customer_id c = customerId) (customers st) of
        None \<Rightarrow> (Failure ''Customer not found'', st)
      | Some c \<Rightarrow>
          let (t, st1) = createServiceTicket uuid1 now1 customerId serviceType prio st;
              (comm, st2) = logCommunication uuid2 now2 customerId ''ticket_created''
                              [Str ''Service ticket created: '', Str serviceType] st1
          in (Success (TicketData t), st2))"

text \<open>\<open>app.post('/api/crm/invoice')\<close>; the \<open>catch\<close> answers an exception with status 500.\<close>

definition api_crm_invoice ::
  "int \<Rightarrow> int \<Rightarrow> int \<Rightarrow> string \<Rightarrow> int \<Rightarrow> string \<Rightarrow> real \<Rightarrow> string list \<Rightarrow> store
     \<Rightarrow> response \<times> store" where
  "api_crm_invoice t1 t2 t3 uuid now customerId amt svcs st =
     (case find (\<lambda>c. customer_id c = customerId) (customers st) of
        None \<Rightarrow> (Failure ''Customer not found'', st)
      | Some c \<Rightarrow>
          (case generateInvoice t1 t2 t3 customerId amt svcs st of
             Inl e \<Rightarrow> (ServerError e, st)
           | Inr (invoice, st1) \<Rightarrow>
               let (comm, st2) = logCommunication uuid now customerId ''invoice_generated''
                                   [Str ''Invoice '', Str (invoice_id invoice), Str '' for '', Num amt] st1
               in (Success (InvoiceData invoice), st2)))"

text \<open>
  \<open>app.post('/api/sites')\<close>, for the fields of a site that are modelled: \<open>la\<close> and \<open>lo\<close> are
  the Numbers that \<open>parseFloat\<close> returns, which are NaN when the request has no \<open>lat\<close> or
  \<open>lng\<close> or they do not start with a number; \<open>skills || ['Mowing']\<close> takes the default
  when the request has no \<open>skills\<close>.
\<close>

definition api_sites ::
  "string \<Rightarrow> string \<Rightarrow> number \<Rightarrow> number \<Rightarrow> string list option \<Rightarrow> store
     \<Rightarrow> response \<times> store" where
  "api_sites uuid addr la lo skills_opt st =
     (let newSite = \<lparr>site_id = ''site_'' @ uuid,
                      address = addr,
                      coords = \<lparr>lat = la, lng = lo\<rparr>,
                      status = ''open'',
                      preferred_skills = (case skills_opt of None \<Rightarrow> [''Mowing''] | Some l \<Rightarrow> l)\<rparr>
      in (Success (SiteData newSite), st\<lparr>workSites := workSites st @ [newSite]\<rparr>))"

text \<open>\<open>app.post('/api/assign')\<close>; \<open>now\<close> is the reading of \<open>new Date()\<close>.\<close>

definition api_assign ::
  "string \<Rightarrow> int \<Rightarrow> string \<Rightarrow> string \<Rightarrow> store \<Rightarrow> response \<times> store" where
  "api_assign uuid now wid sid st =
     (case (find (\<lambda>s. site_id s = sid) (workSites st),
            find (\<lambda>w. worker_id w = wid) (workers st)) of
        (Some site, Some w) \<Rightarrow>
          let st1 = st\<lparr>workSites :=
                      update_first (\<lambda>s. site_id s = sid) (\<lambda>s. s\<lparr>status := ''assigned''\<rparr>)
                        (workSites st)\<rparr>;
              st2 = st1\<lparr>workers :=
                      update_first (\<lambda>w. worker_id w = wid)
                        (\<lambda>w. w\<lparr>active_assignment_ids := active_assignment_ids w @ [sid]\<rparr>)
                        (workers st1)\<rparr>;
              a = \<lparr>assignment_id = ''assign_'' @ uuid,
                   workerId = wid,
                   siteId = sid,
                   assignedAt = now,
                   assignment_status = ''scheduled''\<rparr>
          in (Success (AssignmentData a), st2\<lparr>assignments := assignments st2 @ [a]\<rparr>)
      | _ \<Rightarrow> (Failure ''Site or worker not found'', st))"

text \<open>
  \<open>app.get('/api/ai/recommend/:siteId')\<close>, without the advisory answer of the language
  model and the knowledge-graph texts, which do not enter the scores.
\<close>

definition api_ai_recommend :: "runtime \<Rightarrow> string \<Rightarrow> store \<Rightarrow> string + scored list option" where
  "api_ai_recommend rt sid st =
     (case find (\<lambda>s. site_id s = sid) (workSites st) of
        None \<Rightarrow> Inl ''Site not found''
      | Some site \<Rightarrow> Inr (traditional_scores rt (workers st) site))"

subsection \<open>Requests and runs\<close>

text \<open>
  The requests that write the store, each with the clock readings and identifiers its
  handler draws, and the store after a sequence of them.
\<close>

datatype request =
  Assign string int string string
| CrmTicket string int string int string string "string option"
| CrmInvoice int int int string int string real "string list"
| AddSite string string number number "string list option"

fun handle :: "request \<Rightarrow> store \<Rightarrow> response \<times> store" where
  "handle (Assign uuid now wid sid) st = api_assign uuid now wid sid st"
| "handle (CrmTicket uuid1 now1 uuid2 now2 cid stype prio) st =
     api_crm_ticket uuid1 now1 uuid2 now2 cid stype prio st"
| "handle (CrmInvoice t1 t2 t3 uuid now cid amt svcs) st =
     api_crm_invoice t1 t2 t3 uuid now cid amt svcs st"
| "handle (AddSite uuid addr la lo skills_opt) st = api_sites uuid addr la lo skills_opt st"

fun run :: "request list \<Rightarrow> store \<Rightarrow> store" where
  "run [] st = st"
| "run (r # rs) st = run rs (snd (handle r st))"

subsection \<open>Seed data\<close>

text \<open>
  The first two sites, the first two workers and the first customer of the arrays that
  the source starts with; \<open>assignments\<close> and the arrays of the CRM start empty.
\<close>

definition seed_store :: store where
  "seed_store =
     \<lparr>workSites =
        [\<lparr>site_id = ''site_1'', address = ''123 Main St, Canton, OH 44702'',
          coords = \<lparr>lat = Fin 40.7989, lng = Fin (- 81.3784)\<rparr>, status = ''open'',
          preferred_skills = [''Mowing'', ''Edging'', ''Trimming'']\<rparr>,
         \<lparr>site_id = ''site_2'', address = ''456 Oak Ave, Massillon, OH 44646'',
          coords = \<lparr>lat = Fin 40.7967, lng = Fin (- 81.5215)\<rparr>, status = ''open'',
          preferred_skills = [''Mowing'', ''Fertilizing'']\<rparr>],
      workers =
        [\<lparr>worker_id = ''worker_1'', name = ''John Smith'',
          skills = [''Mowing'', ''Edging'', ''Trimming'', ''Fertilizing''],
          home_coords = \<lparr>lat = Fin 40.8, lng = Fin (- 81.4)\<rparr>, rating = Fin 4.8,
          active_assignment_ids = []\<rparr>,
         \<lparr>worker_id = ''worker_2'', name = ''Maria Garcia'',
          skills = [''Mowing'', ''Planting'', ''Landscaping'', ''WeedControl'', ''LandscapeDesign''],
          home_coords = \<lparr>lat = Fin 40.79, lng = Fin (- 81.45)\<rparr>, rating = Fin 4.9,
          active_assignment_ids = []\<rparr>],
      customers = [\<lparr>customer_id = ''cust_1'', customer_name = ''Sarah Johnson''\<rparr>],
      assignments = [],
      serviceTickets = [],
      invoices = [],
      communications = []\<rparr>"

text \<open>
  The store after worker_1 has been assigned to site_1, and the store after a site has
  been added by a request that has an address and no \<open>lat\<close> and \<open>lng\<close>.
\<close>

definition assigned_store :: store where
  "assigned_store = run [Assign ''u1'' 1700000000000 ''worker_1'' ''site_1''] seed_store"

definition nan_store :: store where
  "nan_store = run [AddSite ''n1'' ''1 Elm St, Canton, OH'' NaN NaN None] seed_store"

text \<open>
  Site_1 of the seed data and a pool of three workers whose home is at that site, with
  the skills and ratings of worker_2, of worker_1 and of worker_1 again.
\<close>

definition site_1 :: workSite where
  "site_1 =
     \<lparr>site_id = ''site_1'', address = ''123 Main St, Canton, OH 44702'',
      coords = \<lparr>lat = Fin 40.7989, lng = Fin (- 81.3784)\<rparr>, status = ''open'',
      preferred_skills = [''Mowing'', ''Edging'', ''Trimming'']\<rparr>"

definition pool_at_site_1 :: "worker list" where
  "pool_at_site_1 =
     [\<lparr>worker_id = ''worker_2'', name = ''Maria Garcia'',
       skills = [''Mowing'', ''Planting'', ''Landscaping'', ''WeedControl'', ''LandscapeDesign''],
       home_coords = \<lparr>lat = Fin 40.7989, lng = Fin (- 81.3784)\<rparr>, rating = Fin 4.9,
       active_assignment_ids = []\<rparr>,
      \<lparr>worker_id = ''worker_1'', name = ''John Smith'',
       skills = [''Mowing'', ''Edging'', ''Trimming'', ''Fertilizing''],
       home_coords = \<lparr>lat = Fin 40.7989, lng = Fin (- 81.3784)\<rparr>, rating = Fin 4.8,
       active_assignment_ids = []\<rparr>,
      \<lparr>worker_id = ''worker_13'', name = ''Sam Taylor'',
       skills = [''Mowing'', ''Edging'', ''Trimming'', ''Fertilizing''],
       home_coords = \<lparr>lat = Fin 40.7989, lng = Fin (- 81.3784)\<rparr>, rating = Fin 4.8,
       active_assignment_ids = []\<rparr>]"

section \<open>The claims about the parts of the score\<close>

lemma calculateSkillMatch_range:
  "0 \<le> calculateSkillMatch ws ss \<and> calculateSkillMatch ws ss \<le> 1"
proof (cases "ss = []")
  case True
  then show ?thesis by (simp add: calculateSkillMatch_def)
next
  case False
  have "length (filter (\<lambda>skill. skill \<in> set ws) ss) \<le> length ss"
    by (rule length_filter_le)
  with False show ?thesis
    by (simp add: calculateSkillMatch_def Let_def divide_le_eq)
qed

text \<open>
  Claim C6. For a site with at least one preferred skill, the skill match is the number of
  entries of the site's list that the worker has, divided by the length of the list, and
  lies between 0 and 1; when the list has no repeated tag this is the fraction of the set
  of preferred tags that is in the worker's skill set. For a site without preferred skills
  it is 0.5. Skills Mowing, Edging against Mowing, Edging, Trimming give 2/3.
\<close>

theorem calculateSkillMatch_fraction:
  "(siteSkills \<noteq> [] \<longrightarrow>
      calculateSkillMatch workerSkills siteSkills =
        real (length (filter (\<lambda>s. s \<in> set workerSkills) siteSkills)) / real (length siteSkills)
      \<and> 0 \<le> calculateSkillMatch workerSkills siteSkills
      \<and> calculateSkillMatch workerSkills siteSkills \<le> 1)
   \<and> (siteSkills \<noteq> [] \<and> distinct siteSkills \<longrightarrow>
      calculateSkillMatch workerSkills siteSkills =
        real (card (set siteSkills \<inter> set workerSkills)) / real (card (set siteSkills)))
   \<and> calculateSkillMatch workerSkills [] = 0.5
   \<and> calculateSkillMatch [''Mowing'', ''Edging''] [''Mowing'', ''Edging'', ''Trimming''] = 2 / 3"
proof -
  have frac: "siteSkills \<noteq> [] \<Longrightarrow> calculateSkillMatch workerSkills siteSkills =
        real (length (filter (\<lambda>s. s \<in> set workerSkills) siteSkills)) / real (length siteSkills)"
    by (simp add: calculateSkillMatch_def Let_def)
  have "distinct siteSkills \<Longrightarrow>
      length (filter (\<lambda>s. s \<in> set workerSkills) siteSkills) = card (set siteSkills \<inter> set workerSkills)"
  proof -
    assume d: "distinct siteSkills"
    then have "distinct (filter (\<lambda>s. s \<in> set workerSkills) siteSkills)" by simp
    then have "length (filter (\<lambda>s. s \<in> set workerSkills) siteSkills) =
        card (set (filter (\<lambda>s. s \<in> set workerSkills) siteSkills))"
      by (rule distinct_card [symmetric])
    also have "set (filter (\<lambda>s. s \<in> set workerSkills) siteSkills) = set siteSkills \<inter> set workerSkills"
      by auto
    finally show ?thesis .
  qed
  then have setfrac: "siteSkills \<noteq> [] \<Longrightarrow> distinct siteSkills \<Longrightarrow>
      calculateSkillMatch workerSkills siteSkills =
        real (card (set siteSkills \<inter> set workerSkills)) / real (card (set siteSkills))"
    by (simp add: frac distinct_card)
  have ex: "calculateSkillMatch [''Mowing'', ''Edging''] [''Mowing'', ''Edging'', ''Trimming''] = 2 / 3"
    by (simp add: calculateSkillMatch_def Let_def)
  show ?thesis
    using frac setfrac ex calculateSkillMatch_range [of workerSkills siteSkills]
    by (simp add: calculateSkillMatch_def)
qed

theorem calculateSkillMatch_fraction_witness:
  "[''Mowing'', ''Fertilizing''] \<noteq> [] \<and> distinct [''Mowing'', ''Fertilizing'']
   \<and> calculateSkillMatch [''Mowing'', ''Aeration''] [''Mowing'', ''Fertilizing''] = 1 / 2
   \<and> real (card (set [''Mowing'', ''Fertilizing''] \<inter> set [''Mowing'', ''Aeration''])) = 1"
  using calculateSkillMatch_fraction [of "[''Mowing'', ''Fertilizing'']" "[''Mowing'', ''Aeration'']"]
  by simp



text \<open>
  On the arithmetic without rounding, the distance score that \<open>calculateAssignmentScore\<close>
  computes from a finite distance is \<^const>\<open>distanceScore\<close> of that distance.
\<close>

lemma distanceScore_exact_runtime:
  "js_max (Fin 0) (js_sub exact_runtime (Fin 1) (js_div exact_runtime (Fin d) (Fin 20))) =
     Fin (distanceScore d)"
  by (simp add: js_max_def js_sub_def js_div_def exact_runtime_def distanceScore_def max_def)

section \<open>The claim about the ranking\<close>

subsection \<open>The sort\<close>

lemma zero_of_signs:
  "v \<noteq> NaN \<Longrightarrow> \<not> js_lt (Fin 0) v \<Longrightarrow> \<not> js_lt v (Fin 0) \<Longrightarrow> v = Fin 0"
  by (cases v) auto

lemma consistent_of_key:
  fixes key :: "'a \<Rightarrow> real"
  assumes ord: "\<And>x y. x \<in> set xs \<Longrightarrow> y \<in> set xs \<Longrightarrow>
      cmp x y \<noteq> NaN \<and> js_lt (Fin 0) (cmp x y) = (key x < key y)
      \<and> js_lt (cmp x y) (Fin 0) = (key y < key x)"
  shows "consistent cmp xs"
proof -
  have zero: "(cmp x y = Fin 0) = (key x = key y)"
    if "x \<in> set xs" "y \<in> set xs" for x y
  proof
    assume "cmp x y = Fin 0"
    with ord [OF that] have "\<not> key x < key y" "\<not> key y < key x" by auto
    then show "key x = key y" by simp
  next
    assume "key x = key y"
    with ord [OF that] show "cmp x y = Fin 0" by (intro zero_of_signs) auto
  qed
  show ?thesis
    unfolding consistent_def
  proof (intro ballI conjI impI)
    fix a b c
    assume a: "a \<in> set xs" and b: "b \<in> set xs" and c: "c \<in> set xs"
    show "cmp a b \<noteq> NaN" using ord [OF a b] by simp
    show "cmp a a = Fin 0" using zero [OF a a] by simp
    show "cmp b a = Fin 0" if "cmp a b = Fin 0"
      using that zero [OF a b] zero [OF b a] by simp
    show "cmp a c = Fin 0" if "cmp a b = Fin 0 \<and> cmp b c = Fin 0"
      using that zero [OF a b] zero [OF b c] zero [OF a c] by simp
    show "js_lt (cmp a c) (Fin 0)" if "js_lt (cmp a b) (Fin 0) \<and> js_lt (cmp b c) (Fin 0)"
      using that ord [OF a b] ord [OF b c] ord [OF a c] by auto
    show "js_lt (Fin 0) (cmp a c)" if "js_lt (Fin 0) (cmp a b) \<and> js_lt (Fin 0) (cmp b c)"
      using that ord [OF a b] ord [OF b c] ord [OF a c] by auto
  qed
qed

lemma mset_insert_cmp: "mset (insert_cmp cmp x ys) = add_mset x (mset ys)"
  by (induction ys) simp_all

lemma mset_insertion_sort: "mset (foldr (insert_cmp cmp) xs []) = mset xs"
  by (induction xs) (simp_all add: mset_insert_cmp)

lemma set_insert_cmp: "set (insert_cmp cmp x ys) = insert x (set ys)"
  by (induction ys) auto

lemma set_insertion_sort: "set (foldr (insert_cmp cmp) xs []) = set xs"
  by (induction xs) (simp_all add: set_insert_cmp)

lemma sorted_insert_cmp:
  assumes "\<And>y. y \<in> set ys \<Longrightarrow> js_lt (Fin 0) (cmp x y) = (key x < (key y :: real))"
    and "sorted_wrt (\<lambda>a b. key b \<le> key a) ys"
  shows "sorted_wrt (\<lambda>a b. key b \<le> key a) (insert_cmp cmp x ys)"
  using assms
proof (induction ys)
  case Nil
  then show ?case by simp
next
  case (Cons y ys)
  show ?case
  proof (cases "key x < key y")
    case True
    with Cons show ?thesis by (auto simp: set_insert_cmp)
  next
    case False
    with Cons.prems show ?thesis by fastforce
  qed
qed

lemma sorted_insertion_sort:
  assumes "\<And>x y. x \<in> set xs \<Longrightarrow> y \<in> set xs \<Longrightarrow>
      js_lt (Fin 0) (cmp x y) = (key x < (key y :: real))"
  shows "sorted_wrt (\<lambda>a b. key b \<le> key a) (foldr (insert_cmp cmp) xs [])"
  using assms
proof (induction xs)
  case Nil
  show ?case by simp
next
  case (Cons x xs)
  have "sorted_wrt (\<lambda>a b. key b \<le> key a) (foldr (insert_cmp cmp) xs [])"
    using Cons by simp
  moreover have "js_lt (Fin 0) (cmp x y) = (key x < key y)"
    if "y \<in> set (foldr (insert_cmp cmp) xs [])" for y
    using that Cons.prems by (simp add: set_insertion_sort)
  ultimately show ?case
    by (simp add: sorted_insert_cmp)
qed

lemma filter_insert_cmp:
  assumes "\<And>y. y \<in> set ys \<Longrightarrow> js_lt (Fin 0) (cmp x y) = (key x < (key y :: real))"
  shows "filter (\<lambda>y. key y = r) (insert_cmp cmp x ys) =
     (if key x = r then x # filter (\<lambda>y. key y = r) ys else filter (\<lambda>y. key y = r) ys)"
  using assms by (induction ys) auto

lemma filter_insertion_sort:
  assumes "\<And>x y. x \<in> set xs \<Longrightarrow> y \<in> set xs \<Longrightarrow>
      js_lt (Fin 0) (cmp x y) = (key x < (key y :: real))"
  shows "filter (\<lambda>y. key y = r) (foldr (insert_cmp cmp) xs []) = filter (\<lambda>y. key y = r) xs"
  using assms
proof (induction xs)
  case Nil
  show ?case by simp
next
  case (Cons x xs)
  have ih: "filter (\<lambda>y. key y = r) (foldr (insert_cmp cmp) xs []) = filter (\<lambda>y. key y = r) xs"
    using Cons by simp
  have "js_lt (Fin 0) (cmp x y) = (key x < key y)"
    if "y \<in> set (foldr (insert_cmp cmp) xs [])" for y
    using that Cons.prems by (simp add: set_insertion_sort)
  then show ?case
    by (simp add: filter_insert_cmp ih)
qed

lemma sign_exact_exact_runtime: "sign_exact exact_runtime x y"
  by (auto simp: sign_exact_def exact_runtime_def)

lemma nan_store_value:
  "nan_store =
     seed_store\<lparr>workSites := workSites seed_store @
       [\<lparr>site_id = ''site_n1'', address = ''1 Elm St, Canton, OH'',
         coords = \<lparr>lat = NaN, lng = NaN\<rparr>, status = ''open'',
         preferred_skills = [''Mowing'']\<rparr>]\<rparr>"
  by (simp add: nan_store_def api_sites_def Let_def)

lemma calculateDistance_NaN:
  "lat c2 = NaN \<Longrightarrow> calculateDistance rt c1 c2 = NaN"
  by (simp add: calculateDistance_def Let_def js_add_def js_sub_def js_mul_def js_div_def
      js_sin_def js_cos_def js_sqrt_def js_atan2_def)

lemma calculateAssignmentScore_NaN:
  "lat (coords site) = NaN \<Longrightarrow> calculateAssignmentScore rt w site = NaN"
  by (simp add: calculateAssignmentScore_def calculateDistance_NaN Let_def js_add_def js_sub_def
      js_mul_def js_div_def js_max_def)

text \<open>
  Claim C8, as stated, fails for a site whose coordinates are NaN, which is what
  \<open>POST /api/sites\<close> stores for a request without \<open>lat\<close> and \<open>lng\<close>. On every runtime the
  composite score of every worker for that site is NaN, the comparator returns NaN, so
  that the order of the result is left to the implementation, and no order of the pool
  is descending, because NaN is not below or equal to NaN.
\<close>

theorem traditional_scores_nan_counterexample:
  "\<forall>rt. find (\<lambda>s. site_id s = ''site_n1'') (workSites nan_store) =
          Some \<lparr>site_id = ''site_n1'', address = ''1 Elm St, Canton, OH'',
                coords = \<lparr>lat = NaN, lng = NaN\<rparr>, status = ''open'',
                preferred_skills = [''Mowing'']\<rparr>
      \<and> map (\<lambda>w. calculateAssignmentScore rt w
                 \<lparr>site_id = ''site_n1'', address = ''1 Elm St, Canton, OH'',
                  coords = \<lparr>lat = NaN, lng = NaN\<rparr>, status = ''open'',
                  preferred_skills = [''Mowing'']\<rparr>) (workers nan_store) = [NaN, NaN]
      \<and> api_ai_recommend rt ''site_n1'' nan_store = Inr None
      \<and> \<not> js_le NaN NaN"
proof
  fix rt
  define site where "site = \<lparr>site_id = ''site_n1'', address = ''1 Elm St, Canton, OH'',
    coords = \<lparr>lat = NaN, lng = NaN\<rparr>, status = ''open'', preferred_skills = [''Mowing'']\<rparr>"
  have nan: "calculateAssignmentScore rt w site = NaN" for w
    by (rule calculateAssignmentScore_NaN) (simp add: site_def)
  have f: "find (\<lambda>s. site_id s = ''site_n1'') (workSites nan_store) = Some site"
    by (simp add: nan_store_value seed_store_def site_def)
  have ws: "length (workers nan_store) = 2"
    by (simp add: nan_store_value seed_store_def)
  have m: "map (\<lambda>w. calculateAssignmentScore rt w site) (workers nan_store) = [NaN, NaN]"
    using ws by (simp add: nan nan_store_value seed_store_def)
  have "\<not> consistent (\<lambda>a b. js_sub rt (score b) (score a))
      (map (\<lambda>w. \<lparr>scored_worker = w, score = calculateAssignmentScore rt w site\<rparr>)
        (workers nan_store))"
    by (auto simp: consistent_def nan js_sub_def nan_store_value seed_store_def)
  then have r: "api_ai_recommend rt ''site_n1'' nan_store = Inr None"
    by (simp add: api_ai_recommend_def f traditional_scores_def js_sort_def)
  have "\<not> js_le NaN NaN" by (simp add: js_le_def)
  with f m r show "find (\<lambda>s. site_id s = ''site_n1'') (workSites nan_store) =
          Some \<lparr>site_id = ''site_n1'', address = ''1 Elm St, Canton, OH'',
                coords = \<lparr>lat = NaN, lng = NaN\<rparr>, status = ''open'',
                preferred_skills = [''Mowing'']\<rparr>
      \<and> map (\<lambda>w. calculateAssignmentScore rt w
                 \<lparr>site_id = ''site_n1'', address = ''1 Elm St, Canton, OH'',
                  coords = \<lparr>lat = NaN, lng = NaN\<rparr>, status = ''open'',
                  preferred_skills = [''Mowing'']\<rparr>) (workers nan_store) = [NaN, NaN]
      \<and> api_ai_recommend rt ''site_n1'' nan_store = Inr None
      \<and> \<not> js_le NaN NaN"
    by (simp add: site_def)
qed

text \<open>
  Claim C8, amended. For every site and every worker pool for which every composite score
  is a finite number, on a runtime whose subtraction of two of these scores keeps the sign
  of the exact difference (as IEEE 754 subtraction does), the ranking holds every worker
  of the pool once, each with its composite score for the site, in descending order of
  score; the workers that share a score stand in the order they have in the pool.
\<close>

theorem traditional_scores_ranking:
  assumes fin: "\<forall>w \<in> set ws. \<exists>x. calculateAssignmentScore rt w site = Fin x"
    and sgn: "\<forall>w \<in> set ws. \<forall>w' \<in> set ws. \<forall>x y.
        calculateAssignmentScore rt w site = Fin x \<and> calculateAssignmentScore rt w' site = Fin y
        \<longrightarrow> sign_exact rt x y"
  shows "\<exists>r. traditional_scores rt ws site = Some r
       \<and> mset (map scored_worker r) = mset ws
       \<and> map score r = map (\<lambda>p. calculateAssignmentScore rt (scored_worker p) site) r
       \<and> sorted_wrt (\<lambda>a b. js_le (score b) (score a)) r
       \<and> (\<forall>v. map scored_worker (filter (\<lambda>p. score p = v) r) =
                filter (\<lambda>w. calculateAssignmentScore rt w site = v) ws)"
proof -
  define mk where "mk = (\<lambda>w. \<lparr>scored_worker = w, score = calculateAssignmentScore rt w site\<rparr>)"
  define xs where "xs = map mk ws"
  define cmp :: "scored \<Rightarrow> scored \<Rightarrow> number"
    where "cmp = (\<lambda>a b. js_sub rt (score b) (score a))"
  define key :: "scored \<Rightarrow> real"
    where "key = (\<lambda>p. case score p of Fin x \<Rightarrow> x | _ \<Rightarrow> 0)"
  define r where "r = foldr (insert_cmp cmp) xs []"
  have sc: "score p = Fin (key p)" if "p \<in> set xs" for p
  proof -
    from that obtain w where "w \<in> set ws" "p = mk w" by (auto simp: xs_def)
    with fin obtain x where "score p = Fin x" by (auto simp: mk_def)
    then show ?thesis by (simp add: key_def)
  qed
  have own: "score p = calculateAssignmentScore rt (scored_worker p) site" if "p \<in> set xs" for p
    using that by (auto simp: xs_def mk_def)
  have ord: "cmp p q \<noteq> NaN \<and> js_lt (Fin 0) (cmp p q) = (key p < key q)
      \<and> js_lt (cmp p q) (Fin 0) = (key q < key p)"
    if p: "p \<in> set xs" and q: "q \<in> set xs" for p q
  proof -
    from p obtain w where w: "w \<in> set ws" "p = mk w" by (auto simp: xs_def)
    from q obtain w' where w': "w' \<in> set ws" "q = mk w'" by (auto simp: xs_def)
    have "calculateAssignmentScore rt w site = Fin (key p)"
      using sc [OF p] w(2) by (simp add: mk_def)
    moreover have "calculateAssignmentScore rt w' site = Fin (key q)"
      using sc [OF q] w'(2) by (simp add: mk_def)
    ultimately have "sign_exact rt (key p) (key q)"
      using sgn w(1) w'(1) by blast
    then show ?thesis
      by (simp add: cmp_def js_sub_def sc [OF p] sc [OF q] sign_exact_def)
  qed
  have gt: "js_lt (Fin 0) (cmp p q) = (key p < key q)" if "p \<in> set xs" "q \<in> set xs" for p q
    using ord [OF that] by simp
  have "consistent cmp xs"
    using ord by (rule consistent_of_key)
  then have res: "traditional_scores rt ws site = Some r"
    by (simp add: traditional_scores_def js_sort_def r_def xs_def mk_def cmp_def)
  have setr: "set r = set xs"
    by (simp add: r_def set_insertion_sort)
  have "mset r = mset xs"
    by (simp add: r_def mset_insertion_sort)
  then have "mset (map scored_worker r) = mset (map scored_worker xs)"
    by (metis mset_map)
  then have perm: "mset (map scored_worker r) = mset ws"
    by (simp add: xs_def mk_def comp_def)
  have scores: "map score r = map (\<lambda>p. calculateAssignmentScore rt (scored_worker p) site) r"
    using own setr by simp
  have "sorted_wrt (\<lambda>a b. key b \<le> key a) r"
    unfolding r_def using gt by (rule sorted_insertion_sort)
  then have srt: "sorted_wrt (\<lambda>a b. js_le (score b) (score a)) r"
  proof (rule sorted_wrt_mono_rel [rotated])
    fix a b
    assume "a \<in> set r" "b \<in> set r" "key b \<le> key a"
    then show "js_le (score b) (score a)"
      using sc setr by (simp add: js_le_def not_less)
  qed
  have stable: "map scored_worker (filter (\<lambda>p. score p = v) r) =
      filter (\<lambda>w. calculateAssignmentScore rt w site = v) ws" for v
  proof -
    have "filter (\<lambda>p. score p = v) r = filter (\<lambda>p. score p = v) xs"
    proof (cases "\<exists>k. v = Fin k")
      case True
      then obtain k where k: "v = Fin k" by blast
      have "filter (\<lambda>p. score p = v) r = filter (\<lambda>p. key p = k) r"
        using sc setr by (intro filter_cong) (auto simp: k)
      also have "\<dots> = filter (\<lambda>p. key p = k) xs"
        unfolding r_def using gt by (rule filter_insertion_sort)
      also have "\<dots> = filter (\<lambda>p. score p = v) xs"
        using sc by (intro filter_cong) (auto simp: k)
      finally show ?thesis .
    next
      case False
      then have "\<And>p. p \<in> set xs \<Longrightarrow> score p \<noteq> v"
        using sc by metis
      then have "filter (\<lambda>p. score p = v) r = []" "filter (\<lambda>p. score p = v) xs = []"
        using setr by (simp_all add: filter_empty_conv)
      then show ?thesis by simp
    qed
    then show ?thesis
      by (simp add: xs_def filter_map comp_def mk_def)
  qed
  show ?thesis
    using res perm scores srt stable by blast
qed

lemma score_same_place:
  "calculateAssignmentScore exact_runtime
     \<lparr>worker_id = i, name = n, skills = sk, home_coords = \<lparr>lat = Fin la, lng = Fin lo\<rparr>,
      rating = Fin r, active_assignment_ids = []\<rparr>
     \<lparr>site_id = j, address = ad, coords = \<lparr>lat = Fin la, lng = Fin lo\<rparr>, status = stt,
      preferred_skills = ps\<rparr> =
   Fin (calculateSkillMatch sk ps * 0.4 + 0.3 + 0.2 + r / 5 * 0.1)"
  by (simp add: calculateAssignmentScore_def calculateDistance_def Let_def js_add_def js_sub_def
      js_mul_def js_div_def js_sin_def js_cos_def js_sqrt_def js_atan2_def js_max_def
      exact_runtime_def atan2_def)

lemma pool_scores:
  "map (\<lambda>w. calculateAssignmentScore exact_runtime w site_1) pool_at_site_1 =
     [Fin (2194 / 3000), Fin 0.996, Fin 0.996]"
  by (simp add: pool_at_site_1_def site_1_def score_same_place calculateSkillMatch_def Let_def)

theorem traditional_scores_ranking_witness:
  "map (\<lambda>w. calculateAssignmentScore exact_runtime w site_1) pool_at_site_1 =
     [Fin (2194 / 3000), Fin 0.996, Fin 0.996]
   \<and> sign_exact exact_runtime 0.996 (2194 / 3000)
   \<and> map_option (map (\<lambda>p. (worker_id (scored_worker p), score p)))
        (traditional_scores exact_runtime pool_at_site_1 site_1) =
       Some [(''worker_1'', Fin 0.996), (''worker_13'', Fin 0.996),
             (''worker_2'', Fin (2194 / 3000))]"
proof -
  have s: "map (\<lambda>w. calculateAssignmentScore exact_runtime w site_1) pool_at_site_1 =
     [Fin (2194 / 3000), Fin 0.996, Fin 0.996]"
    by (rule pool_scores)
  have fin: "\<forall>w \<in> set pool_at_site_1. \<exists>x. calculateAssignmentScore exact_runtime w site_1 = Fin x"
  proof
    fix w
    assume "w \<in> set pool_at_site_1"
    then have "calculateAssignmentScore exact_runtime w site_1
        \<in> set (map (\<lambda>w. calculateAssignmentScore exact_runtime w site_1) pool_at_site_1)"
      by simp
    then have "calculateAssignmentScore exact_runtime w site_1
        \<in> set [Fin (2194 / 3000), Fin 0.996, Fin 0.996]"
      by (simp only: s)
    then show "\<exists>x. calculateAssignmentScore exact_runtime w site_1 = Fin x"
      by auto
  qed
  have sgn: "\<forall>w \<in> set pool_at_site_1. \<forall>w' \<in> set pool_at_site_1. \<forall>x y.
        calculateAssignmentScore exact_runtime w site_1 = Fin x
        \<and> calculateAssignmentScore exact_runtime w' site_1 = Fin y
        \<longrightarrow> sign_exact exact_runtime x y"
    by (simp add: sign_exact_exact_runtime)
  obtain r where r: "traditional_scores exact_runtime pool_at_site_1 site_1 = Some r"
    "sorted_wrt (\<lambda>a b. js_le (score b) (score a)) r"
    "mset (map scored_worker r) = mset pool_at_site_1"
    using traditional_scores_ranking [OF fin sgn] by blast
  have "consistent (\<lambda>a b. js_sub exact_runtime (score b) (score a))
      (map (\<lambda>w. \<lparr>scored_worker = w, score = calculateAssignmentScore exact_runtime w site_1\<rparr>)
        pool_at_site_1)"
    using r(1) by (simp add: traditional_scores_def js_sort_def split: if_splits)
  then have "map_option (map (\<lambda>p. (worker_id (scored_worker p), score p)))
        (traditional_scores exact_runtime pool_at_site_1 site_1) =
       Some [(''worker_1'', Fin 0.996), (''worker_13'', Fin 0.996),
             (''worker_2'', Fin (2194 / 3000))]"
    using s
    by (simp add: traditional_scores_def js_sort_def pool_at_site_1_def js_sub_def
        exact_runtime_def)
  with s show ?thesis
    by (simp add: sign_exact_exact_runtime)
qed

section \<open>The claims about \<open>/api/assign\<close>\<close>


lemma map_update_first:
  "(\<And>x. g (f x) = g x) \<Longrightarrow> map g (update_first P f xs) = map g xs"
  by (induction xs) auto


lemma api_assign_found:
  assumes "find (\<lambda>s. site_id s = sid) (workSites st) = Some site"
    and "find (\<lambda>w. worker_id w = wid) (workers st) = Some w"
  shows "api_assign uuid now wid sid st =
     (Success (AssignmentData \<lparr>assignment_id = ''assign_'' @ uuid, workerId = wid, siteId = sid,
                                assignedAt = now, assignment_status = ''scheduled''\<rparr>),
      st\<lparr>workSites := update_first (\<lambda>s. site_id s = sid) (\<lambda>s. s\<lparr>status := ''assigned''\<rparr>)
                         (workSites st),
         workers := update_first (\<lambda>w. worker_id w = wid)
                       (\<lambda>w. w\<lparr>active_assignment_ids := active_assignment_ids w @ [sid]\<rparr>)
                       (workers st),
         assignments := assignments st @
           [\<lparr>assignment_id = ''assign_'' @ uuid, workerId = wid, siteId = sid,
             assignedAt = now, assignment_status = ''scheduled''\<rparr>]\<rparr>)"
  using assms by (simp add: api_assign_def Let_def)

lemma api_assign_not_found:
  assumes "find (\<lambda>s. site_id s = sid) (workSites st) = None
           \<or> find (\<lambda>w. worker_id w = wid) (workers st) = None"
  shows "api_assign uuid now wid sid st = (Failure ''Site or worker not found'', st)"
  using assms by (auto simp: api_assign_def split: option.splits)

lemma assigned_store_value:
  "assigned_store =
     seed_store\<lparr>workSites :=
        [\<lparr>site_id = ''site_1'', address = ''123 Main St, Canton, OH 44702'',
          coords = \<lparr>lat = Fin 40.7989, lng = Fin (- 81.3784)\<rparr>, status = ''assigned'',
          preferred_skills = [''Mowing'', ''Edging'', ''Trimming'']\<rparr>,
         \<lparr>site_id = ''site_2'', address = ''456 Oak Ave, Massillon, OH 44646'',
          coords = \<lparr>lat = Fin 40.7967, lng = Fin (- 81.5215)\<rparr>, status = ''open'',
          preferred_skills = [''Mowing'', ''Fertilizing'']\<rparr>],
      workers :=
        [\<lparr>worker_id = ''worker_1'', name = ''John Smith'',
          skills = [''Mowing'', ''Edging'', ''Trimming'', ''Fertilizing''],
          home_coords = \<lparr>lat = Fin 40.8, lng = Fin (- 81.4)\<rparr>, rating = Fin 4.8,
          active_assignment_ids = [''site_1'']\<rparr>,
         \<lparr>worker_id = ''worker_2'', name = ''Maria Garcia'',
          skills = [''Mowing'', ''Planting'', ''Landscaping'', ''WeedControl'', ''LandscapeDesign''],
          home_coords = \<lparr>lat = Fin 40.79, lng = Fin (- 81.45)\<rparr>, rating = Fin 4.9,
          active_assignment_ids = []\<rparr>],
      assignments :=
        [\<lparr>assignment_id = ''assign_u1'', workerId = ''worker_1'', siteId = ''site_1'',
          assignedAt = 1700000000000, assignment_status = ''scheduled''\<rparr>]\<rparr>"
  by (simp add: assigned_store_def api_assign_def seed_store_def Let_def)




text \<open>
  Claim C10. Every successful answer of the handler carries an assignment record with
  status \<open>scheduled\<close>, the worker id and the site id of the request, the clock reading as
  its time stamp and an identifier of its own; the record is the one appended to the
  assignments.
\<close>

theorem api_assign_record:
  "(api_assign uuid now wid sid st = (Success p, st') \<longrightarrow>
     (\<exists>a. p = AssignmentData a
        \<and> assignment_status a = ''scheduled''
        \<and> workerId a = wid \<and> siteId a = sid
        \<and> assignedAt a = now
        \<and> assignment_id a = ''assign_'' @ uuid
        \<and> assignments st' = assignments st @ [a]))
   \<and> ((\<exists>q s. api_assign uuid now wid sid st = (Success q, s)) =
        (find (\<lambda>s. site_id s = sid) (workSites st) \<noteq> None
         \<and> find (\<lambda>w. worker_id w = wid) (workers st) \<noteq> None))"
proof (cases "find (\<lambda>s. site_id s = sid) (workSites st)")
  case None
  then show ?thesis by (simp add: api_assign_not_found)
next
  case (Some site)
  note s = this
  show ?thesis
  proof (cases "find (\<lambda>w. worker_id w = wid) (workers st)")
    case None
    then show ?thesis by (simp add: api_assign_not_found)
  next
    case (Some w)
    show ?thesis
      unfolding api_assign_found [OF s Some] using s Some by auto
  qed
qed

theorem api_assign_record_witness:
  "fst (api_assign ''u1'' 1700000000000 ''worker_1'' ''site_1'' seed_store) =
     Success (AssignmentData \<lparr>assignment_id = ''assign_u1'', workerId = ''worker_1'',
        siteId = ''site_1'', assignedAt = 1700000000000, assignment_status = ''scheduled''\<rparr>)
   \<and> assignments (snd (api_assign ''u1'' 1700000000000 ''worker_1'' ''site_1'' seed_store)) =
       [\<lparr>assignment_id = ''assign_u1'', workerId = ''worker_1'',
        siteId = ''site_1'', assignedAt = 1700000000000, assignment_status = ''scheduled''\<rparr>]"
  using api_assign_record [of "''u1''" 1700000000000 "''worker_1''" "''site_1''" seed_store
      "AssignmentData \<lparr>assignment_id = ''assign_u1'', workerId = ''worker_1'',
        siteId = ''site_1'', assignedAt = 1700000000000, assignment_status = ''scheduled''\<rparr>"
      "snd (api_assign ''u1'' 1700000000000 ''worker_1'' ''site_1'' seed_store)"]
  by (simp add: api_assign_def seed_store_def Let_def)

text \<open>
  Claim C4. The active-assignment list of a worker should hold an id exactly when an
  assignment with that id exists whose status is \<open>scheduled\<close> or \<open>active\<close>. The handler
  does not keep this: it pushes the site id of the request onto \<open>active_assignment_ids\<close>
  and gives the assignment record an id of its own. After worker_1 has been assigned to
  site_1 on the seed data, the list of worker_1 is \<open>[site_1]\<close>, which is the id of no
  assignment record, and \<open>assign_u1\<close>, the id of the only record, which is \<open>scheduled\<close>,
  is in no list.
\<close>

theorem active_assignment_ids_after_assign:
  "assigned_store = run [Assign ''u1'' 1700000000000 ''worker_1'' ''site_1''] seed_store
   \<and> map (\<lambda>w. (worker_id w, active_assignment_ids w)) (workers assigned_store) =
       [(''worker_1'', [''site_1'']), (''worker_2'', [])]
   \<and> map (\<lambda>a. (assignment_id a, workerId a, assignment_status a)) (assignments assigned_store) =
       [(''assign_u1'', ''worker_1'', ''scheduled'')]"
proof -
  have "assigned_store = run [Assign ''u1'' 1700000000000 ''worker_1'' ''site_1''] seed_store"
    by (rule assigned_store_def)
  moreover have "map (\<lambda>w. (worker_id w, active_assignment_ids w)) (workers assigned_store) =
       [(''worker_1'', [''site_1'']), (''worker_2'', [])]"
    by (simp add: assigned_store_value)
  moreover have
    "map (\<lambda>a. (assignment_id a, workerId a, assignment_status a)) (assignments assigned_store) =
       [(''assign_u1'', ''worker_1'', ''scheduled'')]"
    by (simp add: assigned_store_value)
  ultimately show ?thesis by blast
qed

section \<open>The claims about invoices\<close>

lemma show_int_example: "show_int 1700000000000 = ''1700000000000''"
  by (simp add: show_int_def)

lemma generateInvoice_ok:
  assumes "- 8640000000000000 \<le> t3 + 2592000000" "t3 + 2592000000 \<le> 8640000000000000"
  shows "generateInvoice t1 t2 t3 cid amt svcs st =
     Inr (\<lparr>invoice_id = ''INV-'' @ show_int t1, invoice_customer_id = cid, amount = amt,
           services = svcs, invoice_status = ''pending'', invoice_created_at = t2,
           due_date = t3 + 2592000000, payment_method = None\<rparr>,
          st\<lparr>invoices := invoices st @
           [\<lparr>invoice_id = ''INV-'' @ show_int t1, invoice_customer_id = cid, amount = amt,
             services = svcs, invoice_status = ''pending'', invoice_created_at = t2,
             due_date = t3 + 2592000000, payment_method = None\<rparr>]\<rparr>)"
  using assms by (simp add: generateInvoice_def toISOString_def Let_def)

lemma generateInvoice_throws:
  assumes "\<not> (- 8640000000000000 \<le> t3 + 2592000000 \<and> t3 + 2592000000 \<le> 8640000000000000)"
  shows "generateInvoice t1 t2 t3 cid amt svcs st = Inl ''Invalid time value''"
  using assms by (simp add: generateInvoice_def toISOString_def Let_def)

text \<open>
  What \<open>generateInvoice\<close> puts into the two dates: the reading \<open>t2\<close> and 30 days after
  the reading \<open>t3\<close>.
\<close>

lemma generateInvoice_dates:
  "(generateInvoice t1 t2 t3 cid amt svcs st = Inr (i, st') \<longrightarrow>
     invoice_created_at i = t2
     \<and> due_date i = t3 + 30 * 24 * 60 * 60 * 1000
     \<and> due_date i - invoice_created_at i = 30 * 24 * 60 * 60 * 1000 + (t3 - t2)
     \<and> (t3 = t2 \<longrightarrow> due_date i = invoice_created_at i + 30 * 24 * 60 * 60 * 1000))
   \<and> ((\<exists>j s. generateInvoice t1 t2 t3 cid amt svcs st = Inr (j, s)) =
        (- 8640000000000000 \<le> t3 + 30 * 24 * 60 * 60 * 1000
         \<and> t3 + 30 * 24 * 60 * 60 * 1000 \<le> 8640000000000000))"
proof (cases "- 8640000000000000 \<le> t3 + 2592000000 \<and> t3 + 2592000000 \<le> 8640000000000000")
  case True
  then show ?thesis by (auto simp: generateInvoice_ok)
next
  case False
  then show ?thesis by (simp add: generateInvoice_throws)
qed

text \<open>
  Claim C9. The due date of an invoice should be exactly 30 days
  (\<open>30 * 24 * 60 * 60 * 1000\<close> milliseconds) after its creation time stamp.
  \<open>generateInvoice\<close> does not keep this when the clock advances between the reading that
  becomes \<open>created_at\<close> and the reading that the due date is computed from: with the
  readings 1700000000000 and 1700000000001 the due date is 30 days and one millisecond
  after the creation time stamp.
\<close>

theorem generateInvoice_clock_advance:
  "generateInvoice 1700000000000 1700000000000 1700000000001 ''cust_1'' 120 [''Mowing''] seed_store =
     Inr (\<lparr>invoice_id = ''INV-1700000000000'', invoice_customer_id = ''cust_1'', amount = 120,
           services = [''Mowing''], invoice_status = ''pending'',
           invoice_created_at = 1700000000000, due_date = 1702592000001,
           payment_method = None\<rparr>,
          seed_store\<lparr>invoices :=
           [\<lparr>invoice_id = ''INV-1700000000000'', invoice_customer_id = ''cust_1'', amount = 120,
             services = [''Mowing''], invoice_status = ''pending'',
             invoice_created_at = 1700000000000, due_date = 1702592000001,
             payment_method = None\<rparr>]\<rparr>)
   \<and> (1702592000001 :: int) \<noteq> 1700000000000 + 30 * 24 * 60 * 60 * 1000"
  by (simp add: generateInvoice_ok show_int_def seed_store_def)

lemma api_crm_invoice_ok:
  assumes "find (\<lambda>c. customer_id c = cid) (customers st) = Some c"
    and "- 8640000000000000 \<le> t3 + 2592000000" "t3 + 2592000000 \<le> 8640000000000000"
  shows "api_crm_invoice t1 t2 t3 uuid now cid amt svcs st =
     (Success (InvoiceData
        \<lparr>invoice_id = ''INV-'' @ show_int t1, invoice_customer_id = cid, amount = amt,
         services = svcs, invoice_status = ''pending'', invoice_created_at = t2,
         due_date = t3 + 2592000000, payment_method = None\<rparr>),
      st\<lparr>invoices := invoices st @
           [\<lparr>invoice_id = ''INV-'' @ show_int t1, invoice_customer_id = cid, amount = amt,
             services = svcs, invoice_status = ''pending'', invoice_created_at = t2,
             due_date = t3 + 2592000000, payment_method = None\<rparr>],
         communications := communications st @
           [\<lparr>comm_id = ''comm_'' @ uuid, comm_customer_id = cid,
             comm_type = ''invoice_generated'',
             content = [Str ''Invoice '', Str (''INV-'' @ show_int t1), Str '' for '', Num amt],
             timestamp = now, sentiment = ''neutral''\<rparr>]\<rparr>)"
  using assms
  by (simp add: api_crm_invoice_def generateInvoice_ok [OF assms(2,3)] logCommunication_def Let_def)

lemma api_crm_invoice_throws:
  assumes "find (\<lambda>c. customer_id c = cid) (customers st) = Some c"
    and "\<not> (- 8640000000000000 \<le> t3 + 2592000000 \<and> t3 + 2592000000 \<le> 8640000000000000)"
  shows "api_crm_invoice t1 t2 t3 uuid now cid amt svcs st = (ServerError ''Invalid time value'', st)"
  using assms(1)
  by (simp add: api_crm_invoice_def generateInvoice_throws [OF assms(2)])

lemma api_crm_invoice_unknown:
  assumes "find (\<lambda>c. customer_id c = cid) (customers st) = None"
  shows "api_crm_invoice t1 t2 t3 uuid now cid amt svcs st = (Failure ''Customer not found'', st)"
  using assms by (simp add: api_crm_invoice_def)

text \<open>
  Claim C2, as stated, fails: neither \<open>generateInvoice\<close> nor the handler looks at the sign
  of the amount. A request with amount -50 for the known customer cust_1 succeeds and the
  invoice with amount -50 is added to the invoices.
\<close>

theorem api_crm_invoice_negative_counterexample:
  "fst (api_crm_invoice 1700000000000 1700000000000 1700000000000 ''c1'' 1700000000000
          ''cust_1'' (- 50) [''Mowing''] seed_store) =
     Success (InvoiceData
        \<lparr>invoice_id = ''INV-1700000000000'', invoice_customer_id = ''cust_1'', amount = - 50,
         services = [''Mowing''], invoice_status = ''pending'',
         invoice_created_at = 1700000000000, due_date = 1702592000000,
         payment_method = None\<rparr>)
   \<and> invoices (snd (api_crm_invoice 1700000000000 1700000000000 1700000000000 ''c1''
          1700000000000 ''cust_1'' (- 50) [''Mowing''] seed_store)) =
     [\<lparr>invoice_id = ''INV-1700000000000'', invoice_customer_id = ''cust_1'', amount = - 50,
       services = [''Mowing''], invoice_status = ''pending'',
       invoice_created_at = 1700000000000, due_date = 1702592000000,
       payment_method = None\<rparr>]
   \<and> invoices seed_store = []"
  by (simp add: api_crm_invoice_def generateInvoice_ok logCommunication_def show_int_def
      seed_store_def Let_def)

text \<open>
  Claim C2, amended. For an unknown customer the handler answers \<open>Customer not found\<close> and
  leaves the store as it is. For a known customer and a due date within the range of time
  values it succeeds for every amount, negative or not, and appends one \<open>pending\<close>
  invoice that carries the amount as given; when the due date is out of range it answers
  with status 500 and leaves the store as it is.
\<close>

theorem api_crm_invoice_outcome:
  "(find (\<lambda>c. customer_id c = cid) (customers st) = None \<longrightarrow>
      api_crm_invoice t1 t2 t3 uuid now cid amt svcs st = (Failure ''Customer not found'', st))
   \<and> (find (\<lambda>c. customer_id c = cid) (customers st) \<noteq> None
      \<and> - 8640000000000000 \<le> t3 + 2592000000 \<and> t3 + 2592000000 \<le> 8640000000000000 \<longrightarrow>
      (\<exists>i. fst (api_crm_invoice t1 t2 t3 uuid now cid amt svcs st) = Success (InvoiceData i)
         \<and> amount i = amt
         \<and> invoice_customer_id i = cid
         \<and> invoice_status i = ''pending''
         \<and> invoices (snd (api_crm_invoice t1 t2 t3 uuid now cid amt svcs st)) = invoices st @ [i]))
   \<and> (find (\<lambda>c. customer_id c = cid) (customers st) \<noteq> None
      \<and> \<not> (- 8640000000000000 \<le> t3 + 2592000000 \<and> t3 + 2592000000 \<le> 8640000000000000) \<longrightarrow>
      api_crm_invoice t1 t2 t3 uuid now cid amt svcs st = (ServerError ''Invalid time value'', st))"
proof (cases "find (\<lambda>c. customer_id c = cid) (customers st)")
  case None
  then show ?thesis by (simp add: api_crm_invoice_unknown)
next
  case (Some c)
  show ?thesis
  proof (cases "- 8640000000000000 \<le> t3 + 2592000000 \<and> t3 + 2592000000 \<le> 8640000000000000")
    case True
    then show ?thesis using Some by (simp add: api_crm_invoice_ok [OF Some])
  next
    case False
    then show ?thesis using Some api_crm_invoice_throws [OF Some False] by simp
  qed
qed

theorem api_crm_invoice_outcome_witness:
  "find (\<lambda>c. customer_id c = ''cust_1'') (customers seed_store) \<noteq> None
   \<and> map amount (invoices (snd (api_crm_invoice 1700000000000 1700000000000 1700000000000 ''c1''
          1700000000000 ''cust_1'' (- 50) [''Mowing''] seed_store))) = [- 50]
   \<and> find (\<lambda>c. customer_id c = ''cust_99'') (customers seed_store) = None
   \<and> api_crm_invoice 1700000000000 1700000000000 1700000000000 ''c1''
          1700000000000 ''cust_99'' 75 [''Mowing''] seed_store =
       (Failure ''Customer not found'', seed_store)
   \<and> api_crm_invoice 1700000000000 1700000000000 8640000000000000 ''c1''
          1700000000000 ''cust_1'' 75 [''Mowing''] seed_store =
       (ServerError ''Invalid time value'', seed_store)"
  using api_crm_invoice_outcome [of "''cust_1''" seed_store 1700000000000 1700000000000
      1700000000000 "''c1''" 1700000000000 "- 50" "[''Mowing'']"]
    api_crm_invoice_outcome [of "''cust_99''" seed_store 1700000000000 1700000000000
      1700000000000 "''c1''" 1700000000000 75 "[''Mowing'']"]
    api_crm_invoice_outcome [of "''cust_1''" seed_store 1700000000000 1700000000000
      8640000000000000 "''c1''" 1700000000000 75 "[''Mowing'']"]
  by (auto simp: seed_store_def)

end
